theory Spec2Isabelle
  imports Complex_Main "HOL-Library.Multiset"
begin

section \<open>Numeric cells of the data frames\<close>

text \<open>
  Every numeric column of the application is a pandas float64 column. A cell is a finite
  number, one of the two infinities, or NaN (the missing-value marker of pandas). Finite
  numbers are modelled as reals: rounding and overflow of binary floating point are not
  modelled, and neither is the sign of zero. The special values are modelled with the
  IEEE rules that numpy applies (no exception is raised by an operation on a column).
  Since the sums of the code are rounded, no statement below uses a law of exact
  addition (associativity, commutativity): a sum is only ever compared with the sum of
  the same cells in the same order.
\<close>

datatype fl = Fin real | PInf | NInf | NaN

fun notna :: "fl \<Rightarrow> bool" where
  "notna NaN = False"
| "notna _ = True"

fun fneg :: "fl \<Rightarrow> fl" where
  "fneg (Fin a) = Fin (- a)"
| "fneg PInf = NInf"
| "fneg NInf = PInf"
| "fneg NaN = NaN"

fun fadd :: "fl \<Rightarrow> fl \<Rightarrow> fl" where
  "fadd NaN _ = NaN"
| "fadd _ NaN = NaN"
| "fadd (Fin a) (Fin b) = Fin (a + b)"
| "fadd PInf NInf = NaN"
| "fadd NInf PInf = NaN"
| "fadd PInf _ = PInf"
| "fadd _ PInf = PInf"
| "fadd NInf _ = NInf"
| "fadd _ NInf = NInf"

definition fsub :: "fl \<Rightarrow> fl \<Rightarrow> fl" where
  "fsub a b = fadd a (fneg b)"

text \<open>The sign of a product or quotient with an infinite operand.\<close>

definition signed_inf :: "bool \<Rightarrow> fl" where
  "signed_inf positive = (if positive then PInf else NInf)"

fun fmul :: "fl \<Rightarrow> fl \<Rightarrow> fl" where
  "fmul NaN _ = NaN"
| "fmul _ NaN = NaN"
| "fmul (Fin a) (Fin b) = Fin (a * b)"
| "fmul (Fin a) PInf = (if a = 0 then NaN else signed_inf (0 < a))"
| "fmul (Fin a) NInf = (if a = 0 then NaN else signed_inf (a < 0))"
| "fmul PInf (Fin b) = (if b = 0 then NaN else signed_inf (0 < b))"
| "fmul NInf (Fin b) = (if b = 0 then NaN else signed_inf (b < 0))"
| "fmul PInf PInf = PInf"
| "fmul NInf NInf = PInf"
| "fmul PInf NInf = NInf"
| "fmul NInf PInf = NInf"

text \<open>
  Division of two columns: a finite non-zero number divided by zero is an infinity,
  zero divided by zero is NaN; numpy raises nothing.
\<close>

fun fdiv :: "fl \<Rightarrow> fl \<Rightarrow> fl" where
  "fdiv NaN _ = NaN"
| "fdiv _ NaN = NaN"
| "fdiv (Fin a) (Fin b) =
     (if b = 0 then (if a = 0 then NaN else signed_inf (0 < a)) else Fin (a / b))"
| "fdiv (Fin a) PInf = Fin 0"
| "fdiv (Fin a) NInf = Fin 0"
| "fdiv PInf (Fin b) = signed_inf (0 \<le> b)"
| "fdiv NInf (Fin b) = signed_inf (b < 0)"
| "fdiv PInf PInf = NaN"
| "fdiv PInf NInf = NaN"
| "fdiv NInf PInf = NaN"
| "fdiv NInf NInf = NaN"

fun fabs :: "fl \<Rightarrow> fl" where
  "fabs (Fin a) = Fin \<bar>a\<bar>"
| "fabs PInf = PInf"
| "fabs NInf = PInf"
| "fabs NaN = NaN"

fun fsqrt :: "fl \<Rightarrow> fl" where
  "fsqrt (Fin a) = (if a < 0 then NaN else Fin (sqrt a))"
| "fsqrt PInf = PInf"
| "fsqrt NInf = NaN"
| "fsqrt NaN = NaN"

text \<open>Comparisons: every comparison with NaN is false.\<close>

fun flt :: "fl \<Rightarrow> fl \<Rightarrow> bool" where
  "flt NaN _ = False"
| "flt _ NaN = False"
| "flt (Fin a) (Fin b) = (a < b)"
| "flt (Fin a) PInf = True"
| "flt (Fin a) NInf = False"
| "flt PInf _ = False"
| "flt NInf NInf = False"
| "flt NInf _ = True"

fun fle :: "fl \<Rightarrow> fl \<Rightarrow> bool" where
  "fle NaN _ = False"
| "fle _ NaN = False"
| "fle (Fin a) (Fin b) = (a \<le> b)"
| "fle (Fin a) PInf = True"
| "fle (Fin a) NInf = False"
| "fle PInf PInf = True"
| "fle PInf _ = False"
| "fle NInf _ = True"

fun feq :: "fl \<Rightarrow> fl \<Rightarrow> bool" where
  "feq NaN _ = False"
| "feq _ NaN = False"
| "feq a b = (a = b)"

section \<open>Aggregations of pandas\<close>

text \<open>
  \<open>fsum\<close> is the plain sum of a column. \<open>nansum\<close>, \<open>nanmean\<close> and \<open>nanstd\<close> are
  \<open>Series.sum()\<close>, \<open>Series.mean()\<close> and \<open>Series.std()\<close> with their defaults
  (\<open>skipna=True\<close>, \<open>min_count=0\<close>, \<open>ddof=1\<close>): the NaN cells are left out, the mean
  of no value is NaN, and the standard deviation of fewer than two values is NaN.
\<close>

fun fsum :: "fl list \<Rightarrow> fl" where
  "fsum [] = Fin 0"
| "fsum (x # xs) = fadd x (fsum xs)"

definition nansum :: "fl list \<Rightarrow> fl" where
  "nansum xs = fsum (filter notna xs)"

definition nanmean :: "fl list \<Rightarrow> fl" where
  "nanmean xs =
     (let ys = filter notna xs in
      if ys = [] then NaN else fdiv (fsum ys) (Fin (real (length ys))))"

definition nanstd :: "fl list \<Rightarrow> fl" where
  "nanstd xs =
     (let ys = filter notna xs; n = length ys in
      if n \<le> 1 then NaN
      else let avg = fdiv (fsum ys) (Fin (real n));
               sqr = map (\<lambda>v. fmul (fsub avg v) (fsub avg v)) ys
           in fsqrt (fdiv (fsum sqr) (Fin (real (n - 1)))))"

section \<open>Ingestion: numeric coercion\<close>

text \<open>
  \<open>pd.to_numeric(column, errors="coerce")\<close> of \<open>traiter_fichier_onduleur\<close>,
  \<open>traiter_fichier_carac\<close> and \<open>traiter_fichier_irradiance\<close>. The parser of pandas
  is a parameter: \<open>parse c = None\<close> when the raw cell \<open>c\<close> is not a number. The result is
  a column, never an exception.
\<close>

definition to_numeric_coerce :: "('c \<Rightarrow> fl option) \<Rightarrow> 'c list \<Rightarrow> fl list" where
  "to_numeric_coerce parse col = map (\<lambda>c. case parse c of Some v \<Rightarrow> v | None \<Rightarrow> NaN) col"

text \<open>
  \<open>df[colonnes_a_convertir] = df[colonnes_a_convertir].apply(pd.to_numeric, errors="coerce")\<close>:
  every column but the time column is converted.
\<close>

definition convertir_colonnes :: "('c \<Rightarrow> fl option) \<Rightarrow> 'c list list \<Rightarrow> fl list list" where
  "convertir_colonnes parse colonnes = map (to_numeric_coerce parse) colonnes"

section \<open>The data frames after ingestion\<close>

text \<open>
  The inverter frame: the time column (seconds since the epoch), one column per string
  (\<open>f_strings df ! (i - 1)\<close> is the column named \<open>string i\<close>) and the total column.
  A string column name \<open>string i\<close> and the label \<open>string i\<close> of a result row are
  represented by the integer \<open>i\<close>.
\<close>

record frame =
  f_time :: "int list"
  f_strings :: "fl list list"
  f_total :: "fl list"

text \<open>
  A row of the characteristics frame. The identifier column holds integers (its dtype
  after the integer downcast of \<open>traiter_fichier_carac\<close>); the two other columns are
  numeric columns, where a cell that failed the coercion is NaN.
\<close>

record carac =
  c_string :: int
  c_puissance_unitaire :: fl
  c_nombre_pv :: fl

datatype erreur = IndexError | ValueError | OverflowError

section \<open>Date filter and energy per string\<close>

definition dt_date :: "int \<Rightarrow> int" where
  "dt_date t = t div 86400"

definition dans_periode :: "int \<Rightarrow> int \<Rightarrow> int \<Rightarrow> bool" where
  "dans_periode date_debut date_fin t = (date_debut \<le> dt_date t \<and> dt_date t \<le> date_fin)"

text \<open>The rows of a column whose timestamp passes the date filter.\<close>

definition filtrer :: "int \<Rightarrow> int \<Rightarrow> int list \<Rightarrow> 'a list \<Rightarrow> 'a list" where
  "filtrer date_debut date_fin ts col =
     map snd (filter (\<lambda>(t, v). dans_periode date_debut date_fin t) (zip ts col))"

text \<open>\<open>df_puissance[colonnes_strings] / 1000\<close>: watts to kilowatts.\<close>

definition kW :: "fl list \<Rightarrow> fl list" where
  "kW col = map (\<lambda>v. fdiv v (Fin 1000)) col"

text \<open>
  \<open>energie_totale\<close>: every string column in kW, filtered by date, multiplied by
  \<open>10/60\<close> and summed. The page evaluates it only when some sample passes the date
  filter (see \<open>etude_par_onduleur\<close> below); the sum of no sample is 0.
\<close>

definition energie_colonne :: "int \<Rightarrow> int \<Rightarrow> int list \<Rightarrow> fl list \<Rightarrow> fl" where
  "energie_colonne date_debut date_fin ts col =
     nansum (map (\<lambda>v. fmul v (Fin (10 / 60))) (filtrer date_debut date_fin ts (kW col)))"

definition energie_totale :: "frame \<Rightarrow> int \<Rightarrow> int \<Rightarrow> fl list" where
  "energie_totale df date_debut date_fin =
     map (energie_colonne date_debut date_fin (f_time df)) (f_strings df)"

text \<open>
  Contiguous sampling, in the words of the specification: consecutive samples are ten
  minutes apart.
\<close>

fun echantillonnage_contigu :: "int list \<Rightarrow> bool" where
  "echantillonnage_contigu (t # u # ts) = (u = t + 600 \<and> echantillonnage_contigu (u # ts))"
| "echantillonnage_contigu _ = True"

section \<open>Ratios and ranking\<close>

record resultat =
  r_string :: int
  r_energie :: fl
  r_puissance_installee :: fl
  r_ratio :: fl

definition puissance_installee :: "carac \<Rightarrow> fl" where
  "puissance_installee c = fmul (c_puissance_unitaire c) (c_nombre_pv c)"

text \<open>
  \<open>df_resultats.merge(df_carac[["string", capacity]], on="string", how="left")\<close>: every left row is kept, in the order of the left frame, once per matching
  row of the characteristics, and once with a missing capacity when no row matches.
\<close>

definition merge_left :: "(int \<times> fl) list \<Rightarrow> carac list \<Rightarrow> (int \<times> fl \<times> fl) list" where
  "merge_left gauche df_carac =
     concat (map (\<lambda>(s, e).
        case filter (\<lambda>c. c_string c = s) df_carac of
          [] \<Rightarrow> [(s, e, NaN)]
        | ms \<Rightarrow> map (\<lambda>c. (s, e, puissance_installee c)) ms) gauche)"

definition df_resultats :: "frame \<Rightarrow> carac list \<Rightarrow> int \<Rightarrow> int \<Rightarrow> resultat list" where
  "df_resultats df df_carac date_debut date_fin =
     map (\<lambda>(s, e, p). \<lparr>r_string = s, r_energie = e, r_puissance_installee = p,
                        r_ratio = fdiv e p\<rparr>)
       (merge_left (zip [1 .. int (length (f_strings df))] (energie_totale df date_debut date_fin))
          df_carac)"

text \<open>
  \<open>sort_values("ratio kWh/kWc", ascending=...)\<close> as pandas computes it: the rows with a
  NaN ratio are set aside and appended last in both directions; the other rows are
  sorted, and for a descending sort they are reversed before and after the sort. The
  sort itself is modelled by a stable insertion sort; the order that pandas gives to
  rows of equal ratio is not used by any statement below.
\<close>

fun insort_ratio :: "resultat \<Rightarrow> resultat list \<Rightarrow> resultat list" where
  "insort_ratio x [] = [x]"
| "insort_ratio x (y # ys) =
     (if fle (r_ratio x) (r_ratio y) then x # y # ys else y # insort_ratio x ys)"

fun tri_ratio :: "resultat list \<Rightarrow> resultat list" where
  "tri_ratio [] = []"
| "tri_ratio (x # xs) = insort_ratio x (tri_ratio xs)"

definition sort_values_ratio :: "bool \<Rightarrow> resultat list \<Rightarrow> resultat list" where
  "sort_values_ratio ascending rows =
     (let non_nans = filter (\<lambda>r. notna (r_ratio r)) rows;
          nans = filter (\<lambda>r. \<not> notna (r_ratio r)) rows
      in (if ascending then tri_ratio non_nans else rev (tri_ratio (rev non_nans))) @ nans)"

definition top3 :: "resultat list \<Rightarrow> resultat list" where
  "top3 res = (let df_trie_desc = sort_values_ratio False res;
                   n_top = min 3 (length df_trie_desc)
               in take n_top df_trie_desc)"

definition flop3 :: "resultat list \<Rightarrow> resultat list" where
  "flop3 res = (let df_trie_asc = sort_values_ratio True res;
                    n_flop = min 3 (length df_trie_asc)
                in take n_flop df_trie_asc)"

text \<open>
  The orders in which the two sorted tables are read: \<open>avant_desc a b\<close> says that a row
  of ratio \<open>a\<close> may stand before a row of ratio \<open>b\<close> in the descending table (\<open>b\<close> is
  missing, or \<open>b\<close> is at most \<open>a\<close>), and \<open>avant_asc\<close> likewise for the ascending
  table.
\<close>

definition avant_desc :: "fl \<Rightarrow> fl \<Rightarrow> bool" where
  "avant_desc a b = (if notna b then fle b a else True)"

definition avant_asc :: "fl \<Rightarrow> fl \<Rightarrow> bool" where
  "avant_asc a b = (if notna b then fle a b else True)"

section \<open>Peer-group anomaly detection\<close>

datatype message = Anormal | Acceptable | Pas_de_comparaison

text \<open>
  \<open>ecart_pct\<close> is a number when the string has comparable strings and the text of a
  dash otherwise. The alert row stores \<open>f"{ecart_pct:.2f}"\<close>: \<open>Deux_decimales v\<close> stands for
  the rendering of the number \<open>v\<close> with two decimals; the format code \<open>f\<close> applied to a
  text raises ValueError.
\<close>

datatype ecart = Nombre fl | Texte string

datatype ecart_formate = Deux_decimales fl

record alerte =
  a_string :: int
  a_ecart :: ecart_formate
  a_message :: message

definition format_2f :: "ecart \<Rightarrow> erreur + ecart_formate" where
  "format_2f e = (case e of Nombre v \<Rightarrow> Inr (Deux_decimales v) | Texte s \<Rightarrow> Inl ValueError)"

definition moyenne_globale :: "resultat list \<Rightarrow> fl" where
  "moyenne_globale res = nanmean (map r_ratio res)"

definition strings_sous_moyenne :: "resultat list \<Rightarrow> resultat list" where
  "strings_sous_moyenne res = filter (\<lambda>r. flt (r_ratio r) (moyenne_globale res)) res"

definition strings_comparables :: "carac list \<Rightarrow> int \<Rightarrow> fl \<Rightarrow> fl \<Rightarrow> int list" where
  "strings_comparables df_carac string_test nb_pv_test pu_test =
     map c_string (filter (\<lambda>c. c_string c \<noteq> string_test \<and> feq (c_nombre_pv c) nb_pv_test
                               \<and> feq (c_puissance_unitaire c) pu_test) df_carac)"

definition ratios_comparables :: "resultat list \<Rightarrow> int list \<Rightarrow> fl list" where
  "ratios_comparables res comparables =
     (if comparables \<noteq> [] then map r_ratio (filter (\<lambda>r. r_string r \<in> set comparables) res)
      else [])"

text \<open>The dash of the source, U+2014, as its three bytes.\<close>

definition tiret :: string where
  "tiret = [CHR 0xE2, CHR 0x80, CHR 0x94]"

text \<open>
  The body of the loop over \<open>strings_sous_moyenne\<close>. \<open>.iloc[0]\<close> on an empty selection
  raises IndexError.
\<close>

definition analyser_string :: "resultat list \<Rightarrow> carac list \<Rightarrow> resultat \<Rightarrow> erreur + alerte" where
  "analyser_string res df_carac row =
     (let string_test = r_string row; ratio_test = r_ratio row in
      case filter (\<lambda>c. c_string c = string_test) df_carac of
        [] \<Rightarrow> Inl IndexError
      | carac_test # _ \<Rightarrow>
          let nb_pv_test = c_nombre_pv carac_test;
              pu_test = c_puissance_unitaire carac_test;
              comparables = strings_comparables df_carac string_test nb_pv_test pu_test;
              ratios = ratios_comparables res comparables;
              (msg, ecart_pct) =
                (if ratios \<noteq> [] then
                   let moyenne = nanmean ratios;
                       ecart_type = nanstd ratios;
                       seuil_alerte = fsub moyenne (fmul (Fin 1.5) ecart_type)
                   in (if flt ratio_test seuil_alerte then Anormal else Acceptable,
                       Nombre (fmul (fdiv (fabs (fsub moyenne ratio_test)) moyenne) (Fin 100)))
                 else (Pas_de_comparaison, Texte tiret))
          in case format_2f ecart_pct of
               Inl e \<Rightarrow> Inl e
             | Inr f \<Rightarrow> Inr \<lparr>a_string = string_test, a_ecart = f, a_message = msg\<rparr>)"

fun boucle_alertes :: "resultat list \<Rightarrow> carac list \<Rightarrow> resultat list \<Rightarrow> erreur + alerte list" where
  "boucle_alertes res df_carac [] = Inr []"
| "boucle_alertes res df_carac (row # rows) =
     (case analyser_string res df_carac row of
        Inl e \<Rightarrow> Inl e
      | Inr a \<Rightarrow> (case boucle_alertes res df_carac rows of
                    Inl e \<Rightarrow> Inl e
                  | Inr alertes \<Rightarrow> Inr (a # alertes)))"

definition detecter :: "resultat list \<Rightarrow> carac list \<Rightarrow> erreur + alerte list" where
  "detecter res df_carac = boucle_alertes res df_carac (strings_sous_moyenne res)"

section \<open>The study of one inverter\<close>

text \<open>
  The branch of the page that studies one inverter over a period, up to the table of
  alerts. Nothing is computed when the end date precedes the start date (the page
  stops) or when no sample passes the date filter; an exception of the detector ends
  the run.
\<close>

record analyse =
  an_resultats :: "resultat list"
  an_top3 :: "resultat list"
  an_flop3 :: "resultat list"
  an_alertes :: "alerte list"

definition etude_par_onduleur ::
  "frame \<Rightarrow> carac list \<Rightarrow> int \<Rightarrow> int \<Rightarrow> erreur + analyse option" where
  "etude_par_onduleur df_puissance df_carac date_debut date_fin =
     (if date_fin < date_debut then Inr None
      else if filtrer date_debut date_fin (f_time df_puissance) (f_time df_puissance) = []
      then Inr None
      else let res = df_resultats df_puissance df_carac date_debut date_fin in
           case detecter res df_carac of
             Inl e \<Rightarrow> Inl e
           | Inr alertes \<Rightarrow>
               Inr (Some \<lparr>an_resultats = res, an_top3 = top3 res, an_flop3 = flop3 res,
                          an_alertes = alertes\<rparr>))"

section \<open>Nearest-timestamp alignment and theoretical power\<close>

text \<open>
  \<open>pd.merge_asof(left[["time"]], right, on="time", direction="nearest")\<close>. Both key
  columns must be sorted, else pandas raises ValueError. For a left key, the backward
  match is the last right row whose key is at most the left key, the forward match is
  the first right row whose key is at least the left key, and the nearest match is the
  backward one unless the forward one is strictly closer. pandas finds both with a
  pointer that moves one way over the sorted keys; the positions are the ones computed
  here. A left row with no match gets NaN.
\<close>

definition backward_pos :: "int list \<Rightarrow> int \<Rightarrow> nat option" where
  "backward_pos right_values t =
     (let n = length (takeWhile (\<lambda>r. r \<le> t) right_values)
      in if n = 0 then None else Some (n - 1))"

definition forward_pos :: "int list \<Rightarrow> int \<Rightarrow> nat option" where
  "forward_pos right_values t =
     (let n = length (takeWhile (\<lambda>r. t \<le> r) (rev right_values))
      in if n = 0 then None else Some (length right_values - n))"

definition nearest_pos :: "int list \<Rightarrow> int \<Rightarrow> nat option" where
  "nearest_pos right_values t =
     (case (backward_pos right_values t, forward_pos right_values t) of
        (Some b, Some f) \<Rightarrow>
          (if t - right_values ! b \<le> right_values ! f - t then Some b else Some f)
      | (Some b, None) \<Rightarrow> Some b
      | (None, f) \<Rightarrow> f)"

definition merge_asof_nearest :: "int list \<Rightarrow> (int \<times> fl) list \<Rightarrow> erreur + fl list" where
  "merge_asof_nearest left_times df_irradiance =
     (let right_values = map fst df_irradiance in
      if \<not> sorted left_times \<or> \<not> sorted right_values then Inl ValueError
      else Inr (map (\<lambda>t. case nearest_pos right_values t of
                            None \<Rightarrow> NaN
                          | Some p \<Rightarrow> snd (df_irradiance ! p)) left_times))"

text \<open>
  \<open>int(x)\<close> of Python on a float: truncation towards zero, ValueError on NaN,
  OverflowError on an infinity.
\<close>

definition py_int :: "fl \<Rightarrow> erreur + int" where
  "py_int v = (case v of
                 Fin a \<Rightarrow> Inr (if 0 \<le> a then \<lfloor>a\<rfloor> else \<lceil>a\<rceil>)
               | NaN \<Rightarrow> Inl ValueError
               | _ \<Rightarrow> Inl OverflowError)"

text \<open>
  The loop over the rows of the characteristics that fills \<open>puissances_theoriques\<close>:
  the column of a string is assigned under its name, so a later row with the same
  identifier overwrites the column of an earlier one. \<open>irradiance\<close> is the irradiance
  column of the aligned frame.
\<close>

definition puissance_theorique :: "fl \<Rightarrow> int \<Rightarrow> fl \<Rightarrow> fl" where
  "puissance_theorique g n_pv unitaire = fmul (fmul (fmul g (Fin (of_int n_pv))) unitaire) (Fin 0.8)"

fun puissances_theoriques ::
  "carac list \<Rightarrow> fl list \<Rightarrow> (int \<rightharpoonup> fl list) \<Rightarrow> erreur + (int \<rightharpoonup> fl list)" where
  "puissances_theoriques [] irradiance tbl = Inr tbl"
| "puissances_theoriques (row # rows) irradiance tbl =
     (let string_name = c_string row; unitaire = c_puissance_unitaire row in
      case py_int (c_nombre_pv row) of
        Inl e \<Rightarrow> Inl e
      | Inr n_pv \<Rightarrow>
          puissances_theoriques rows irradiance
            (tbl(string_name \<mapsto> map (\<lambda>g. puissance_theorique g n_pv unitaire) irradiance)))"

section \<open>Example inputs\<close>

text \<open>
  One sample per string at time 0 on day 0. A power of 6000 W over ten minutes is an
  energy of 1 kWh.
\<close>

definition ex_row :: "int \<Rightarrow> real \<Rightarrow> resultat" where
  "ex_row s x = \<lparr>r_string = s, r_energie = Fin x, r_puissance_installee = Fin 1, r_ratio = Fin x\<rparr>"

definition ex_spec :: "int \<Rightarrow> real \<Rightarrow> real \<Rightarrow> carac" where
  "ex_spec s unitaire n = \<lparr>c_string = s, c_puissance_unitaire = Fin unitaire, c_nombre_pv = Fin n\<rparr>"

definition ex_frame :: frame where
  "ex_frame = \<lparr>f_time = [0], f_strings = [[Fin 6000], [Fin 24000], [Fin 24000]],
               f_total = [Fin 54000]\<rparr>"

definition ex_carac :: "carac list" where
  "ex_carac = [ex_spec 1 1 1, ex_spec 2 1 1, ex_spec 3 1 1]"

text \<open>Three strings with the same panels and the ratios 4.0, 4.2 and 1.0.\<close>

definition spec_rows :: "resultat list" where
  "spec_rows = [ex_row 1 4, ex_row 2 4.2, ex_row 3 1]"

text \<open>Two strings with the same panels.\<close>

definition pair_frame :: frame where
  "pair_frame = \<lparr>f_time = [0], f_strings = [[Fin 6000], [Fin 18000]], f_total = [Fin 24000]\<rparr>"

definition pair_carac :: "carac list" where
  "pair_carac = [ex_spec 1 1 1, ex_spec 2 1 1]"

text \<open>Two strings with different panels: neither has a comparable string.\<close>

definition alone_frame :: frame where
  "alone_frame = \<lparr>f_time = [0], f_strings = [[Fin 6000], [Fin 36000]], f_total = [Fin 42000]\<rparr>"

definition alone_carac :: "carac list" where
  "alone_carac = [ex_spec 1 1 1, ex_spec 2 2 1]"

text \<open>A raw column of texts, and a parser that knows one number.\<close>

definition ex_parse :: "string \<Rightarrow> fl option" where
  "ex_parse c = (if c = ''6000'' then Some (Fin 6000) else None)"

text \<open>Characteristics of two strings of 20 and 18 panels of 0.3 kWc.\<close>

definition th_carac :: "carac list" where
  "th_carac = [ex_spec 1 0.3 20, ex_spec 2 0.3 18]"

text \<open>
  Three strings of 1 kWh each: the panels of string 1 have a unit power of zero, the
  strings 2 and 3 have ten panels of 1 kWc.
\<close>

definition zero_frame :: frame where
  "zero_frame = \<lparr>f_time = [0], f_strings = [[Fin 6000], [Fin 6000], [Fin 6000]],
                 f_total = [Fin 18000]\<rparr>"

definition zero_carac :: "carac list" where
  "zero_carac = [ex_spec 1 0 10, ex_spec 2 1 10, ex_spec 3 1 10]"

definition zero_row :: "int \<Rightarrow> real \<Rightarrow> fl \<Rightarrow> resultat" where
  "zero_row s p x = \<lparr>r_string = s, r_energie = Fin 1, r_puissance_installee = Fin p, r_ratio = x\<rparr>"

definition zero_rows :: "resultat list" where
  "zero_rows = [zero_row 1 0 PInf, zero_row 2 10 (Fin 0.1), zero_row 3 10 (Fin 0.1)]"

text \<open>
  One string, two samples of 6000 W ten minutes apart: at 23:50 of day 0 and at 00:00 of
  day 1.
\<close>

definition contig_frame :: frame where
  "contig_frame = \<lparr>f_time = [85800, 86400], f_strings = [[Fin 6000, Fin 6000]],
                   f_total = [Fin 6000, Fin 6000]\<rparr>"

text \<open>
  Characteristics of two strings of 0.3 kWc panels whose panel counts are read from the
  raw cells \<open>20\<close> and \<open>abc\<close>.
\<close>

definition pv_parse :: "string \<Rightarrow> fl option" where
  "pv_parse c = (if c = ''20'' then Some (Fin 20) else None)"

definition nan_carac :: "carac list" where
  "nan_carac = map (\<lambda>(s, n). \<lparr>c_string = s, c_puissance_unitaire = Fin 0.3, c_nombre_pv = n\<rparr>)
                 (zip [1, 2] (to_numeric_coerce pv_parse [''20'', ''abc'']))"

text \<open>An irradiance frame with two rows at the same timestamp, and one without.\<close>

definition dup_irradiance :: "(int \<times> fl) list" where
  "dup_irradiance = [(0, Fin 1), (0, Fin 2)]"

definition ex_irradiance :: "(int \<times> fl) list" where
  "ex_irradiance = [(0, Fin 1), (600, NaN), (1200, Fin 2)]"

section \<open>Facts about the numeric cells\<close>

lemma fle_not_flt: "fle m r \<Longrightarrow> \<not> flt r m"
  by (cases m; cases r) simp_all

lemma flt_NaN_right: "flt a NaN = False"
  by (cases a) simp_all

lemma fsub_NaN_right: "fsub a NaN = NaN"
  by (cases a) (simp_all add: fsub_def)

lemma fmul_NaN_right: "fmul a NaN = NaN"
  by (cases a) simp_all

lemma nanstd_single: "nanstd [x] = NaN"
  by (simp add: nanstd_def Let_def)

text \<open>
  On finite values the two statistics are the arithmetic mean and the sample standard
  deviation.
\<close>

lemma filter_notna_Fin: "filter notna (map Fin xs) = map Fin xs"
  by (induction xs) simp_all

lemma fsum_Fin: "fsum (map Fin xs) = Fin (sum_list xs)"
  by (induction xs) simp_all

lemma nanmean_Fin:
  "xs \<noteq> [] \<Longrightarrow> nanmean (map Fin xs) = Fin (sum_list xs / real (length xs))"
  by (simp add: nanmean_def filter_notna_Fin fsum_Fin)

lemma nanstd_Fin:
  assumes "2 \<le> length xs"
  shows "nanstd (map Fin xs) =
         Fin (sqrt (sum_list (map (\<lambda>x. (sum_list xs / real (length xs) - x)\<^sup>2) xs)
                    / real (length xs - 1)))"
proof -
  let ?m = "sum_list xs / real (length xs)"
  have ne: "real (length xs) \<noteq> 0" "real (length xs - 1) \<noteq> 0" using assms by auto
  have sq: "map (\<lambda>v. fmul (fsub (Fin ?m) v) (fsub (Fin ?m) v)) (map Fin xs) =
            map Fin (map (\<lambda>x. (?m - x)\<^sup>2) xs)"
    by (simp add: fsub_def power2_eq_square)
  have nonneg: "0 \<le> sum_list (map (\<lambda>x. (?m - x)\<^sup>2) xs) / real (length xs - 1)"
    by (intro divide_nonneg_nonneg sum_list_nonneg) auto
  have "\<not> length xs \<le> 1" using assms by simp
  then show ?thesis
    using ne nonneg
    by (simp add: nanstd_def Let_def filter_notna_Fin fsum_Fin sq del: map_map)
qed

section \<open>Evaluation of the examples\<close>

lemmas pipeline_defs =
  df_resultats_def energie_totale_def energie_colonne_def filtrer_def kW_def nansum_def
  merge_left_def puissance_installee_def dans_periode_def dt_date_def ex_spec_def

lemmas detection_defs =
  detecter_def strings_sous_moyenne_def moyenne_globale_def nanmean_def nanstd_def
  analyser_string_def strings_comparables_def ratios_comparables_def format_2f_def fsub_def
  ex_spec_def

lemma ex_resultats:
  "df_resultats ex_frame ex_carac 0 0 = [ex_row 1 1, ex_row 2 4, ex_row 3 4]"
  by (simp add: pipeline_defs ex_frame_def ex_carac_def ex_row_def upto.simps)

lemma ex_moyenne: "moyenne_globale [ex_row 1 1, ex_row 2 4, ex_row 3 4] = Fin 3"
  by (simp add: moyenne_globale_def nanmean_def ex_row_def)

lemma ex_detecter:
  "detecter [ex_row 1 1, ex_row 2 4, ex_row 3 4] ex_carac =
     Inr [\<lparr>a_string = 1, a_ecart = Deux_decimales (Fin 75), a_message = Anormal\<rparr>]"
  by (simp add: detection_defs ex_carac_def ex_row_def Let_def)

lemma pair_resultats:
  "df_resultats pair_frame pair_carac 0 0 = [ex_row 1 1, ex_row 2 3]"
  by (simp add: pipeline_defs pair_frame_def pair_carac_def ex_row_def upto.simps)

lemma alone_resultats:
  "df_resultats alone_frame alone_carac 0 0 =
     [ex_row 1 1, \<lparr>r_string = 2, r_energie = Fin 6, r_puissance_installee = Fin 2,
                   r_ratio = Fin 3\<rparr>]"
  by (simp add: pipeline_defs alone_frame_def alone_carac_def ex_row_def upto.simps)

section \<open>The anomaly detector\<close>

lemma analyser_string_label:
  "analyser_string res df_carac row = Inr a \<Longrightarrow> a_string a = r_string row"
  by (auto simp: analyser_string_def Let_def format_2f_def
      split: list.splits if_splits sum.splits ecart.splits prod.splits)

lemma boucle_alertes_labels:
  "boucle_alertes res df_carac rows = Inr alertes \<Longrightarrow> map a_string alertes = map r_string rows"
proof (induction rows arbitrary: alertes)
  case Nil
  then show ?case by simp
next
  case (Cons row rows)
  then show ?case
    by (auto split: sum.splits dest: analyser_string_label)
qed

text \<open>
  C2. A string that has a row of characteristics and at least one comparable string
  (another string of the characteristics with the same panel count and the same unit
  power) with a result row gets an alert row whose message is Anormal exactly when its
  ratio is strictly below the mean of the comparable ratios minus 1.5 times their
  standard deviation, and Acceptable otherwise; the deviation of the row is the
  two-decimal rendering of |mean - ratio| / mean * 100. This holds for every row the
  loop visits, in particular for every row below the global mean.
\<close>

theorem peer_classification:
  assumes carac: "filter (\<lambda>c. c_string c = r_string row) df_carac = carac_test # autres"
      and comps: "comparables = strings_comparables df_carac (r_string row)
                     (c_nombre_pv carac_test) (c_puissance_unitaire carac_test)"
      and peer: "rp \<in> set res" "r_string rp \<in> set comparables"
      and ratios: "ratios = map r_ratio (filter (\<lambda>r. r_string r \<in> set comparables) res)"
      and stats: "peer_mean = nanmean ratios" "peer_stddev = nanstd ratios"
  shows "analyser_string res df_carac row =
           Inr \<lparr>a_string = r_string row,
                a_ecart = Deux_decimales
                  (fmul (fdiv (fabs (fsub peer_mean (r_ratio row))) peer_mean) (Fin 100)),
                a_message = (if flt (r_ratio row) (fsub peer_mean (fmul (Fin 1.5) peer_stddev))
                             then Anormal else Acceptable)\<rparr>"
proof -
  have ne: "comparables \<noteq> []" using peer(2) by auto
  have "filter (\<lambda>r. r_string r \<in> set comparables) res \<noteq> []"
    using peer by (auto simp: filter_empty_conv)
  then have rc: "ratios_comparables res comparables = ratios" "ratios \<noteq> []"
    using ne ratios by (simp_all add: ratios_comparables_def)
  show ?thesis
    using carac comps[symmetric] rc stats
    by (simp add: analyser_string_def Let_def format_2f_def)
qed

lemma spec_mean: "nanmean [Fin 4, Fin (21 / 5)] = Fin (41 / 10)"
  using nanmean_Fin[of "[4, 21 / 5]"] by simp

lemma spec_std: "nanstd [Fin 4, Fin (21 / 5)] = Fin (sqrt (1 / 50))"
  using nanstd_Fin[of "[4, 21 / 5]"] by (simp add: power2_eq_square)

lemma spec_threshold: "(1::real) < 41 / 10 - 3 * sqrt (1 / 50) / 2"
proof -
  have "sqrt (1 / 50) < 1" by (simp add: real_sqrt_lt_1_iff)
  then show ?thesis by linarith
qed

theorem peer_classification_witness:
  "moyenne_globale spec_rows = Fin (46 / 15)
   \<and> flt (r_ratio (ex_row 3 1)) (moyenne_globale spec_rows)
   \<and> nanmean [Fin 4, Fin (21 / 5)] = Fin (41 / 10)
   \<and> nanstd [Fin 4, Fin (21 / 5)] = Fin (sqrt (1 / 50))
   \<and> analyser_string spec_rows ex_carac (ex_row 3 1) =
       Inr \<lparr>a_string = 3, a_ecart = Deux_decimales (Fin (3100 / 41)), a_message = Anormal\<rparr>"
proof -
  have carac: "filter (\<lambda>c. c_string c = r_string (ex_row 3 1)) ex_carac = ex_spec 3 1 1 # []"
    by (simp add: ex_carac_def ex_spec_def ex_row_def)
  have comps: "[1, 2] = strings_comparables ex_carac (r_string (ex_row 3 1))
                 (c_nombre_pv (ex_spec 3 1 1)) (c_puissance_unitaire (ex_spec 3 1 1))"
    by (simp add: strings_comparables_def ex_carac_def ex_spec_def ex_row_def)
  have peer: "ex_row 1 4 \<in> set spec_rows" "r_string (ex_row 1 4) \<in> set [1, 2]"
    by (simp_all add: spec_rows_def ex_row_def)
  have ratios: "[Fin 4, Fin (21 / 5)] =
      map r_ratio (filter (\<lambda>r. r_string r \<in> set [1, 2]) spec_rows)"
    by (simp add: spec_rows_def ex_row_def)
  have stats: "Fin (41 / 10) = nanmean [Fin 4, Fin (21 / 5)]"
    "Fin (sqrt (1 / 50)) = nanstd [Fin 4, Fin (21 / 5)]"
    by (simp_all add: spec_mean spec_std)
  have m: "moyenne_globale spec_rows = Fin (46 / 15)"
    by (simp add: moyenne_globale_def nanmean_def spec_rows_def ex_row_def)
  have below: "flt (r_ratio (ex_row 3 1)) (moyenne_globale spec_rows)"
    by (simp add: m) (simp add: ex_row_def)
  from peer_classification[OF carac comps peer ratios stats] spec_threshold
  have "analyser_string spec_rows ex_carac (ex_row 3 1) =
       Inr \<lparr>a_string = 3, a_ecart = Deux_decimales (Fin (3100 / 41)), a_message = Anormal\<rparr>"
    by (simp add: ex_row_def fsub_def)
  with m below spec_mean spec_std show ?thesis by simp
qed

text \<open>
  C3. When the detector returns its alert rows, they are the rows of the strings
  strictly below the global mean, in order: a string whose ratio is at or above the
  global mean is not visited by the loop, and, the identifiers of the result rows being
  distinct, no alert row carries its label.
\<close>

theorem no_alert_at_or_above_mean:
  assumes det: "detecter res df_carac = Inr alertes"
      and r: "r \<in> set res"
      and ge: "fle (moyenne_globale res) (r_ratio r)"
      and ids: "distinct (map r_string res)"
  shows "r \<notin> set (strings_sous_moyenne res) \<and> r_string r \<notin> a_string ` set alertes"
proof -
  have notbelow: "r \<notin> set (strings_sous_moyenne res)"
    using ge by (simp add: strings_sous_moyenne_def fle_not_flt)
  have labels: "map a_string alertes = map r_string (strings_sous_moyenne res)"
    using det by (simp add: detecter_def boucle_alertes_labels)
  have "r_string r \<notin> r_string ` set (strings_sous_moyenne res)"
  proof
    assume "r_string r \<in> r_string ` set (strings_sous_moyenne res)"
    then obtain r' where r': "r' \<in> set (strings_sous_moyenne res)" "r_string r' = r_string r"
      by auto
    then have "r' \<in> set res" by (simp add: strings_sous_moyenne_def)
    with ids r r'(2) have "r' = r" by (meson distinct_map inj_onD)
    with r'(1) notbelow show False by simp
  qed
  moreover have "a_string ` set alertes = r_string ` set (strings_sous_moyenne res)"
    using labels by (metis set_map)
  ultimately show ?thesis using notbelow by simp
qed

theorem no_alert_at_or_above_mean_witness:
  "detecter (df_resultats ex_frame ex_carac 0 0) ex_carac =
     Inr [\<lparr>a_string = 1, a_ecart = Deux_decimales (Fin 75), a_message = Anormal\<rparr>]
   \<and> fle (moyenne_globale (df_resultats ex_frame ex_carac 0 0)) (r_ratio (ex_row 2 4))
   \<and> ex_row 2 4 \<notin> set (strings_sous_moyenne (df_resultats ex_frame ex_carac 0 0))
   \<and> r_string (ex_row 2 4) \<notin>
       a_string ` set [\<lparr>a_string = 1, a_ecart = Deux_decimales (Fin 75), a_message = Anormal\<rparr>]"
proof -
  let ?res = "df_resultats ex_frame ex_carac 0 0"
  let ?al = "[\<lparr>a_string = 1, a_ecart = Deux_decimales (Fin 75), a_message = Anormal\<rparr>]"
  have det: "detecter ?res ex_carac = Inr ?al"
    by (simp only: ex_resultats ex_detecter)
  have r: "ex_row 2 4 \<in> set ?res" by (simp add: ex_resultats)
  have ge: "fle (moyenne_globale ?res) (r_ratio (ex_row 2 4))"
    by (simp add: ex_resultats ex_moyenne) (simp add: ex_row_def)
  have ids: "distinct (map r_string ?res)"
    by (simp add: ex_resultats ex_row_def)
  from no_alert_at_or_above_mean[OF det r ge ids] det ge show ?thesis by simp
qed

text \<open>A string without comparable strings: the dash is formatted as a number.\<close>

lemma no_peer_raises:
  assumes carac: "filter (\<lambda>c. c_string c = r_string row) df_carac = carac_test # autres"
      and none: "strings_comparables df_carac (r_string row)
                     (c_nombre_pv carac_test) (c_puissance_unitaire carac_test) = []"
  shows "analyser_string res df_carac row = Inl ValueError"
  using carac none by (simp add: analyser_string_def Let_def format_2f_def ratios_comparables_def)

text \<open>
  C4. The source builds the alert row of a string without comparable strings from the
  message for missing comparisons and a dash, and then formats the dash with the
  number format: the run raises ValueError instead of returning the row. Here string 1
  is the only string below the global mean, it has no comparable string, and the
  detector, hence the study of the inverter, fails.
\<close>

theorem no_peer_alert_raises:
  "strings_sous_moyenne (df_resultats alone_frame alone_carac 0 0) = [ex_row 1 1]
   \<and> strings_comparables alone_carac 1 (Fin 1) (Fin 1) = []
   \<and> detecter (df_resultats alone_frame alone_carac 0 0) alone_carac = Inl ValueError
   \<and> etude_par_onduleur alone_frame alone_carac 0 0 = Inl ValueError"
proof -
  have below: "strings_sous_moyenne (df_resultats alone_frame alone_carac 0 0) = [ex_row 1 1]"
    by (simp add: alone_resultats strings_sous_moyenne_def moyenne_globale_def nanmean_def
        ex_row_def)
  have none: "strings_comparables alone_carac 1 (Fin 1) (Fin 1) = []"
    by (simp add: strings_comparables_def alone_carac_def ex_spec_def)
  have carac: "filter (\<lambda>c. c_string c = r_string (ex_row 1 1)) alone_carac = ex_spec 1 1 1 # []"
    by (simp add: alone_carac_def ex_spec_def ex_row_def)
  have none': "strings_comparables alone_carac (r_string (ex_row 1 1))
      (c_nombre_pv (ex_spec 1 1 1)) (c_puissance_unitaire (ex_spec 1 1 1)) = []"
    using none by (simp add: ex_spec_def ex_row_def)
  have "analyser_string (df_resultats alone_frame alone_carac 0 0) alone_carac (ex_row 1 1)
          = Inl ValueError"
    by (rule no_peer_raises[OF carac none'])
  then have det: "detecter (df_resultats alone_frame alone_carac 0 0) alone_carac = Inl ValueError"
    by (simp add: detecter_def below)
  have window: "filtrer 0 0 (f_time alone_frame) (f_time alone_frame) = [0]"
    by (simp add: filtrer_def dans_periode_def dt_date_def alone_frame_def)
  have "etude_par_onduleur alone_frame alone_carac 0 0 = Inl ValueError"
    by (simp add: etude_par_onduleur_def window det)
  with below none det show ?thesis by simp
qed

text \<open>
  C10. A string with exactly one comparable string, which has one result row: the
  standard deviation of the single comparable ratio is NaN, so the comparison with the
  threshold is false and the message is Acceptable, whatever the two ratios are.
\<close>

theorem single_peer_acceptable:
  assumes carac: "filter (\<lambda>c. c_string c = r_string row) df_carac = carac_test # autres"
      and peer: "strings_comparables df_carac (r_string row) (c_nombre_pv carac_test)
                   (c_puissance_unitaire carac_test) = [p]"
      and once: "filter (\<lambda>r. r_string r = p) res = [rp]"
  shows "nanstd (ratios_comparables res [p]) = NaN
       \<and> \<not> flt (r_ratio row) (fsub (nanmean [r_ratio rp]) (fmul (Fin 1.5) (nanstd [r_ratio rp])))
       \<and> analyser_string res df_carac row =
           Inr \<lparr>a_string = r_string row,
                a_ecart = Deux_decimales
                  (fmul (fdiv (fabs (fsub (nanmean [r_ratio rp]) (r_ratio row)))
                     (nanmean [r_ratio rp])) (Fin 100)),
                a_message = Acceptable\<rparr>"
proof -
  have rc: "ratios_comparables res [p] = [r_ratio rp]"
    using once by (simp add: ratios_comparables_def)
  show ?thesis
    using carac peer rc
    by (simp add: analyser_string_def Let_def nanstd_single fmul_NaN_right fsub_NaN_right
        flt_NaN_right format_2f_def)
qed

theorem single_peer_acceptable_witness:
  "flt (r_ratio (ex_row 1 1)) (moyenne_globale (df_resultats pair_frame pair_carac 0 0))
   \<and> nanstd (ratios_comparables (df_resultats pair_frame pair_carac 0 0) [2]) = NaN
   \<and> analyser_string (df_resultats pair_frame pair_carac 0 0) pair_carac (ex_row 1 1) =
       Inr \<lparr>a_string = 1, a_ecart = Deux_decimales (Fin (200 / 3)), a_message = Acceptable\<rparr>"
proof -
  let ?res = "df_resultats pair_frame pair_carac 0 0"
  have carac: "filter (\<lambda>c. c_string c = r_string (ex_row 1 1)) pair_carac = ex_spec 1 1 1 # []"
    by (simp add: pair_carac_def ex_spec_def ex_row_def)
  have peer: "strings_comparables pair_carac (r_string (ex_row 1 1))
                (c_nombre_pv (ex_spec 1 1 1)) (c_puissance_unitaire (ex_spec 1 1 1)) = [2]"
    by (simp add: strings_comparables_def pair_carac_def ex_spec_def ex_row_def)
  have once: "filter (\<lambda>r. r_string r = 2) ?res = [ex_row 2 3]"
    by (simp add: pair_resultats) (simp add: ex_row_def)
  have below: "flt (r_ratio (ex_row 1 1)) (moyenne_globale ?res)"
    by (simp add: pair_resultats moyenne_globale_def nanmean_def) (simp add: ex_row_def)
  from single_peer_acceptable[OF carac peer once] below
  show ?thesis
    by (simp add: nanmean_def fsub_def) (simp add: ex_row_def)
qed

section \<open>Theoretical power\<close>

lemma py_int_Fin: "\<exists>n. py_int (Fin a) = Inr n"
  by (simp add: py_int_def)

lemma py_int_of_int: "py_int (Fin (of_int n)) = Inr n"
  by (simp add: py_int_def)

lemma puissances_theoriques_returns:
  "\<forall>r \<in> set rows. \<exists>a. c_nombre_pv r = Fin a \<Longrightarrow>
   \<exists>tbl'. puissances_theoriques rows irradiance tbl = Inr tbl'"
proof (induction rows arbitrary: tbl)
  case Nil
  then show ?case by simp
next
  case (Cons row rows)
  from Cons.prems obtain a where a: "c_nombre_pv row = Fin a" by auto
  obtain n where n: "py_int (Fin a) = Inr n" using py_int_Fin by blast
  from Cons.prems have "\<forall>r \<in> set rows. \<exists>a. c_nombre_pv r = Fin a" by simp
  from Cons.IH[OF this] show ?case using a n by (simp add: Let_def)
qed

lemma puissances_theoriques_other:
  "puissances_theoriques rows irradiance tbl = Inr tbl' \<Longrightarrow> s \<notin> c_string ` set rows \<Longrightarrow>
   tbl' s = tbl s"
proof (induction rows arbitrary: tbl)
  case Nil
  then show ?case by simp
next
  case (Cons row rows)
  then show ?case
    by (auto simp: Let_def split: sum.splits)
qed

lemma puissances_theoriques_column:
  "puissances_theoriques rows irradiance tbl = Inr tbl' \<Longrightarrow> row \<in> set rows \<Longrightarrow>
   distinct (map c_string rows) \<Longrightarrow> py_int (c_nombre_pv row) = Inr n \<Longrightarrow>
   tbl' (c_string row) =
     Some (map (\<lambda>g. puissance_theorique g n (c_puissance_unitaire row)) irradiance)"
proof (induction rows arbitrary: tbl)
  case Nil
  then show ?case by simp
next
  case (Cons r rows)
  show ?case
  proof (cases "row = r")
    case True
    with Cons.prems have run: "puissances_theoriques rows irradiance
        (tbl(c_string r \<mapsto> map (\<lambda>g. puissance_theorique g n (c_puissance_unitaire r)) irradiance))
        = Inr tbl'"
      by (simp add: Let_def)
    from Cons.prems have "c_string r \<notin> c_string ` set rows" by simp
    from puissances_theoriques_other[OF run this] True show ?thesis by simp
  next
    case False
    with Cons.prems have mem: "row \<in> set rows" by simp
    from Cons.prems have d: "distinct (map c_string rows)" by simp
    from Cons.prems(1) obtain m where
      "puissances_theoriques rows irradiance
        (tbl(c_string r \<mapsto> map (\<lambda>g. puissance_theorique g m (c_puissance_unitaire r)) irradiance))
        = Inr tbl'"
      by (auto simp: Let_def split: sum.splits)
    from Cons.IH[OF this mem d Cons.prems(4)] show ?thesis .
  qed
qed

text \<open>
  C5. When every row of the characteristics has a finite panel count and the
  identifiers are distinct, the loop returns a table; for a string with an integer panel
  count and a unit power, the column of the string holds, at every aligned timestamp
  with irradiance g, the value g * panel_count * unit_power * 0.8.
\<close>

theorem theoretical_power_formula:
  assumes finite_counts: "\<forall>r \<in> set df_carac. \<exists>a. c_nombre_pv r = Fin a"
      and ids: "distinct (map c_string df_carac)"
      and row: "row \<in> set df_carac"
      and count: "c_nombre_pv row = Fin (of_int panel_count)"
      and unit: "c_puissance_unitaire row = unit_power"
      and i: "i < length irradiance"
      and g: "irradiance ! i = g"
  shows "\<exists>tbl col. puissances_theoriques df_carac irradiance Map.empty = Inr tbl
           \<and> tbl (c_string row) = Some col
           \<and> length col = length irradiance
           \<and> col ! i = fmul (fmul (fmul g (Fin (of_int panel_count))) unit_power) (Fin 0.8)"
proof -
  from puissances_theoriques_returns[OF finite_counts] obtain tbl where
    run: "puissances_theoriques df_carac irradiance Map.empty = Inr tbl" by blast
  have n: "py_int (c_nombre_pv row) = Inr panel_count"
    using count by (simp add: py_int_of_int)
  from puissances_theoriques_column[OF run row ids n]
  have col: "tbl (c_string row) =
      Some (map (\<lambda>g. puissance_theorique g panel_count unit_power) irradiance)"
    using unit by simp
  show ?thesis
    using run col i g by (simp add: puissance_theorique_def)
qed

theorem theoretical_power_formula_witness:
  "\<exists>tbl col. puissances_theoriques th_carac [Fin 0.5, Fin 1] Map.empty = Inr tbl
      \<and> tbl 2 = Some col \<and> length col = 2 \<and> col ! 1 = Fin 4.32"
proof -
  have finite_counts: "\<forall>r \<in> set th_carac. \<exists>a. c_nombre_pv r = Fin a"
    by (simp add: th_carac_def ex_spec_def)
  have ids: "distinct (map c_string th_carac)"
    by (simp add: th_carac_def ex_spec_def)
  have row: "ex_spec 2 0.3 18 \<in> set th_carac"
    by (simp add: th_carac_def)
  have count: "c_nombre_pv (ex_spec 2 0.3 18) = Fin (of_int 18)"
    by (simp add: ex_spec_def)
  have unit: "c_puissance_unitaire (ex_spec 2 0.3 18) = Fin 0.3"
    by (simp add: ex_spec_def)
  have i: "1 < length [Fin 0.5, Fin 1]" by simp
  have g: "[Fin 0.5, Fin 1] ! 1 = Fin 1" by simp
  from theoretical_power_formula[OF finite_counts ids row count unit i g]
  show ?thesis by (simp add: ex_spec_def numeral_2_eq_2)
qed

section \<open>Missing values\<close>

lemma to_numeric_coerce_append:
  "to_numeric_coerce parse (xs @ ys) = to_numeric_coerce parse xs @ to_numeric_coerce parse ys"
  by (simp add: to_numeric_coerce_def)

lemma filtrer_drop:
  "length ts1 = length c1 \<Longrightarrow>
   filtrer d0 d1 (ts1 @ t # ts2) (c1 @ v # c2) =
   filtrer d0 d1 ts1 c1 @ (if dans_periode d0 d1 t then [v] else []) @ filtrer d0 d1 ts2 c2"
  by (simp add: filtrer_def)

lemma filtrer_append:
  "length ts1 = length c1 \<Longrightarrow>
   filtrer d0 d1 (ts1 @ ts2) (c1 @ c2) = filtrer d0 d1 ts1 c1 @ filtrer d0 d1 ts2 c2"
  by (simp add: filtrer_def)

lemma kW_append: "kW (c1 @ c2) = kW c1 @ kW c2"
  by (simp add: kW_def)

lemma kW_NaN: "kW (NaN # c2) = NaN # kW c2"
  by (simp add: kW_def)

lemma length_kW: "length (kW c) = length c"
  by (simp add: kW_def)

lemma energie_colonne_NaN:
  assumes "length ts1 = length c1"
  shows "energie_colonne d0 d1 (ts1 @ t # ts2) (c1 @ NaN # c2) =
         energie_colonne d0 d1 (ts1 @ ts2) (c1 @ c2)"
proof -
  have len: "length ts1 = length (kW c1)" using assms by (simp add: length_kW)
  have "filter notna (map (\<lambda>v. fmul v (Fin (10 / 60)))
           (filtrer d0 d1 (ts1 @ t # ts2) (kW c1 @ NaN # kW c2))) =
        filter notna (map (\<lambda>v. fmul v (Fin (10 / 60)))
           (filtrer d0 d1 (ts1 @ ts2) (kW c1 @ kW c2)))"
    unfolding filtrer_drop[OF len] filtrer_append[OF len] by (simp add: filtrer_def)
  then show ?thesis
    by (simp only: energie_colonne_def nansum_def kW_append kW_NaN)
qed

text \<open>
  A raw cell that the parser rejects becomes the missing-value marker NaN in the
  converted column (the conversion returns a column and raises nothing), and the
  aggregations leave that cell out: the sum and the mean of the column, and the energy
  of the column over any period, are those of the column without the cell (and, for
  the energy, without its timestamp).
\<close>

lemma coercion_failure_is_missing_value:
  assumes fail: "parse c = None"
      and len: "length ts1 = length xs"
  shows "to_numeric_coerce parse (xs @ c # ys) =
           to_numeric_coerce parse xs @ NaN # to_numeric_coerce parse ys
       \<and> nansum (to_numeric_coerce parse (xs @ c # ys)) = nansum (to_numeric_coerce parse (xs @ ys))
       \<and> nanmean (to_numeric_coerce parse (xs @ c # ys)) = nanmean (to_numeric_coerce parse (xs @ ys))
       \<and> energie_colonne d0 d1 (ts1 @ t # ts2) (to_numeric_coerce parse (xs @ c # ys)) =
           energie_colonne d0 d1 (ts1 @ ts2) (to_numeric_coerce parse (xs @ ys))"
proof -
  have col: "to_numeric_coerce parse (xs @ c # ys) =
           to_numeric_coerce parse xs @ NaN # to_numeric_coerce parse ys"
    using fail by (simp add: to_numeric_coerce_def)
  have len': "length ts1 = length (to_numeric_coerce parse xs)"
    using len by (simp add: to_numeric_coerce_def)
  have s: "nansum (to_numeric_coerce parse xs @ NaN # to_numeric_coerce parse ys) =
           nansum (to_numeric_coerce parse xs @ to_numeric_coerce parse ys)"
    by (simp add: nansum_def)
  have m: "nanmean (to_numeric_coerce parse xs @ NaN # to_numeric_coerce parse ys) =
           nanmean (to_numeric_coerce parse xs @ to_numeric_coerce parse ys)"
    by (simp add: nanmean_def)
  have col2: "to_numeric_coerce parse (xs @ ys) =
           to_numeric_coerce parse xs @ to_numeric_coerce parse ys"
    by (rule to_numeric_coerce_append)
  show ?thesis
    unfolding col col2
    using energie_colonne_NaN[OF len'] s m by simp
qed

lemma coercion_failure_example:
  "ex_parse ''abc'' = None
   \<and> to_numeric_coerce ex_parse [''6000'', ''abc'', ''6000''] = [Fin 6000, NaN, Fin 6000]
   \<and> nansum (to_numeric_coerce ex_parse [''6000'', ''abc'', ''6000'']) = Fin 12000
   \<and> nanmean (to_numeric_coerce ex_parse [''6000'', ''abc'', ''6000'']) = Fin 6000
   \<and> energie_colonne 0 0 [0, 600, 1200] (to_numeric_coerce ex_parse [''6000'', ''abc'', ''6000''])
       = Fin 2"
proof -
  have fail: "ex_parse ''abc'' = None" by (simp add: ex_parse_def)
  have len: "length [0::int] = length [''6000'']" by simp
  have rest: "to_numeric_coerce ex_parse [''6000'', ''6000''] = [Fin 6000, Fin 6000]"
    by (simp add: to_numeric_coerce_def ex_parse_def)
  have e: "energie_colonne 0 0 [0, 1200] [Fin 6000, Fin 6000] = Fin 2"
    by (simp add: energie_colonne_def filtrer_def kW_def nansum_def dans_periode_def dt_date_def)
  from coercion_failure_is_missing_value[where parse = ex_parse and c = "''abc''"
      and xs = "[''6000'']" and ys = "[''6000'']" and ?ts1.0 = "[0]" and ?d0.0 = 0 and ?d1.0 = 0
      and t = 600 and ?ts2.0 = "[1200]", OF fail len]
  show ?thesis
    using fail rest e by (simp add: nansum_def nanmean_def to_numeric_coerce_def ex_parse_def)
qed

text \<open>The mean over the ratios leaves a row with a missing ratio out.\<close>

lemma moyenne_globale_skips_missing:
  "r_ratio r = NaN \<Longrightarrow> moyenne_globale (xs @ r # ys) = moyenne_globale (xs @ ys)"
  by (simp add: moyenne_globale_def nanmean_def)

text \<open>
  The loop of the theoretical powers converts the panel count with \<open>int\<close>: a missing
  panel count raises ValueError (when no earlier row holds an infinite one).
\<close>

lemma py_int_NaN: "py_int NaN = Inl ValueError"
  by (simp add: py_int_def)

lemma missing_panel_count_raises:
  assumes "\<forall>r \<in> set rows. c_nombre_pv r = NaN \<or> (\<exists>a. c_nombre_pv r = Fin a)"
      and "\<exists>r \<in> set rows. c_nombre_pv r = NaN"
  shows "puissances_theoriques rows irradiance tbl = Inl ValueError"
  using assms
proof (induction rows arbitrary: tbl)
  case Nil
  then show ?case by simp
next
  case (Cons row rows)
  show ?case
  proof (cases "c_nombre_pv row = NaN")
    case True
    then show ?thesis by (simp add: Let_def py_int_NaN)
  next
    case False
    with Cons.prems obtain a where a: "c_nombre_pv row = Fin a" by auto
    obtain n where n: "py_int (Fin a) = Inr n" using py_int_Fin by blast
    from Cons.prems False have
      "\<forall>r \<in> set rows. c_nombre_pv r = NaN \<or> (\<exists>a. c_nombre_pv r = Fin a)"
      "\<exists>r \<in> set rows. c_nombre_pv r = NaN"
      by auto
    from Cons.IH[OF this] show ?thesis using a n by (simp add: Let_def)
  qed
qed

lemma nan_carac_rows:
  "nan_carac = [\<lparr>c_string = 1, c_puissance_unitaire = Fin 0.3, c_nombre_pv = Fin 20\<rparr>,
                \<lparr>c_string = 2, c_puissance_unitaire = Fin 0.3, c_nombre_pv = NaN\<rparr>]"
  by (simp add: nan_carac_def to_numeric_coerce_def pv_parse_def)

lemma nan_resultats:
  "df_resultats pair_frame nan_carac 0 0 =
     [\<lparr>r_string = 1, r_energie = Fin 1, r_puissance_installee = Fin 6, r_ratio = Fin (1 / 6)\<rparr>,
      \<lparr>r_string = 2, r_energie = Fin 3, r_puissance_installee = NaN, r_ratio = NaN\<rparr>]"
  by (simp add: nan_carac_rows) (simp add: pipeline_defs pair_frame_def upto.simps)

text \<open>
  C7. The raw cell \<open>abc\<close> of the panel counts fails the coercion and is stored as NaN,
  without an exception. The study of the inverter carries the missing value through:
  the capacity and the ratio of string 2 are NaN, the mean over the ratios leaves it
  out, and the detector returns. The loop of the theoretical powers does not: \<open>int\<close>
  of the missing panel count raises ValueError.
\<close>

theorem missing_panel_count_fails:
  "to_numeric_coerce pv_parse [''20'', ''abc''] = [Fin 20, NaN]
   \<and> map c_nombre_pv nan_carac = to_numeric_coerce pv_parse [''20'', ''abc'']
   \<and> map r_ratio (df_resultats pair_frame nan_carac 0 0) = [Fin (1 / 6), NaN]
   \<and> moyenne_globale (df_resultats pair_frame nan_carac 0 0) = Fin (1 / 6)
   \<and> detecter (df_resultats pair_frame nan_carac 0 0) nan_carac = Inr []
   \<and> puissances_theoriques nan_carac [Fin 0.5] Map.empty = Inl ValueError"
proof -
  have cells: "to_numeric_coerce pv_parse [''20'', ''abc''] = [Fin 20, NaN]"
    by (simp add: to_numeric_coerce_def pv_parse_def)
  have counts: "map c_nombre_pv nan_carac = [Fin 20, NaN]"
    by (simp add: nan_carac_rows)
  have ratios: "map r_ratio (df_resultats pair_frame nan_carac 0 0) = [Fin (1 / 6), NaN]"
    by (simp add: nan_resultats)
  have mean: "moyenne_globale (df_resultats pair_frame nan_carac 0 0) = Fin (1 / 6)"
    by (simp add: nan_resultats moyenne_globale_def nanmean_def)
  have below: "strings_sous_moyenne (df_resultats pair_frame nan_carac 0 0) = []"
    unfolding strings_sous_moyenne_def mean by (simp add: nan_resultats)
  have det: "detecter (df_resultats pair_frame nan_carac 0 0) nan_carac = Inr []"
    by (simp add: detecter_def below)
  have all: "\<forall>r \<in> set nan_carac. c_nombre_pv r = NaN \<or> (\<exists>a. c_nombre_pv r = Fin a)"
    and some: "\<exists>r \<in> set nan_carac. c_nombre_pv r = NaN"
    by (simp_all add: nan_carac_rows)
  have raises: "puissances_theoriques nan_carac [Fin 0.5] Map.empty = Inl ValueError"
    by (rule missing_panel_count_raises[OF all some])
  from cells counts ratios mean det raises show ?thesis by simp
qed

section \<open>Sorting by ratio\<close>

lemma fle_total: "notna a \<Longrightarrow> notna b \<Longrightarrow> fle a b \<or> fle b a"
  by (cases a; cases b) auto

lemma fle_trans: "fle a b \<Longrightarrow> fle b c \<Longrightarrow> fle a c"
  by (cases a; cases b; cases c) auto

lemma set_insort_ratio: "set (insort_ratio x ys) = insert x (set ys)"
  by (induction ys) auto

lemma mset_insort_ratio: "mset (insort_ratio x ys) = add_mset x (mset ys)"
  by (induction ys) auto

lemma mset_tri_ratio: "mset (tri_ratio xs) = mset xs"
  by (induction xs) (auto simp: mset_insort_ratio)

lemma set_tri_ratio: "set (tri_ratio xs) = set xs"
  by (metis mset_tri_ratio set_mset_mset)

lemma sorted_insort_ratio:
  "notna (r_ratio x) \<Longrightarrow> \<forall>y \<in> set ys. notna (r_ratio y) \<Longrightarrow>
   sorted_wrt (\<lambda>a b. fle (r_ratio a) (r_ratio b)) ys \<Longrightarrow>
   sorted_wrt (\<lambda>a b. fle (r_ratio a) (r_ratio b)) (insort_ratio x ys)"
proof (induction ys)
  case Nil
  then show ?case by simp
next
  case (Cons y ys)
  show ?case
  proof (cases "fle (r_ratio x) (r_ratio y)")
    case True
    with Cons.prems show ?thesis by (auto intro: fle_trans)
  next
    case False
    with Cons.prems have "fle (r_ratio y) (r_ratio x)" using fle_total by auto
    with False Cons show ?thesis by (auto simp: set_insort_ratio)
  qed
qed

lemma sorted_tri_ratio:
  "\<forall>y \<in> set xs. notna (r_ratio y) \<Longrightarrow>
   sorted_wrt (\<lambda>a b. fle (r_ratio a) (r_ratio b)) (tri_ratio xs)"
  by (induction xs) (auto simp: sorted_insort_ratio set_tri_ratio)

lemma mset_sort_values_ratio: "mset (sort_values_ratio ascending rows) = mset rows"
  by (simp add: sort_values_ratio_def Let_def mset_tri_ratio)

lemma length_sort_values_ratio: "length (sort_values_ratio ascending rows) = length rows"
  by (metis mset_sort_values_ratio size_mset)

lemma set_sort_values_ratio: "set (sort_values_ratio ascending rows) = set rows"
  by (metis mset_sort_values_ratio set_mset_mset)

lemma sorted_sort_values_asc:
  "sorted_wrt (\<lambda>a b. avant_asc (r_ratio a) (r_ratio b)) (sort_values_ratio True rows)"
proof -
  let ?nn = "filter (\<lambda>r. notna (r_ratio r)) rows"
  have "sorted_wrt (\<lambda>a b. fle (r_ratio a) (r_ratio b)) (tri_ratio ?nn)"
    by (rule sorted_tri_ratio) simp
  then have "sorted_wrt (\<lambda>a b. avant_asc (r_ratio a) (r_ratio b)) (tri_ratio ?nn)"
    by (rule sorted_wrt_mono_rel[rotated]) (simp add: avant_asc_def)
  moreover have "sorted_wrt (\<lambda>a b. avant_asc (r_ratio a) (r_ratio b))
      (filter (\<lambda>r. \<not> notna (r_ratio r)) rows)"
    by (rule sorted_wrt_mono_rel[of _ "\<lambda>a b. True"]) (simp_all add: avant_asc_def)
  ultimately show ?thesis
    by (simp add: sort_values_ratio_def Let_def sorted_wrt_append avant_asc_def)
qed

lemma sorted_sort_values_desc:
  "sorted_wrt (\<lambda>a b. avant_desc (r_ratio a) (r_ratio b)) (sort_values_ratio False rows)"
proof -
  let ?nn = "filter (\<lambda>r. notna (r_ratio r)) rows"
  have "sorted_wrt (\<lambda>a b. fle (r_ratio a) (r_ratio b)) (tri_ratio (rev ?nn))"
    by (rule sorted_tri_ratio) simp
  then have "sorted_wrt (\<lambda>a b. fle (r_ratio b) (r_ratio a)) (rev (tri_ratio (rev ?nn)))"
    by (simp add: sorted_wrt_rev)
  then have "sorted_wrt (\<lambda>a b. avant_desc (r_ratio a) (r_ratio b)) (rev (tri_ratio (rev ?nn)))"
    by (rule sorted_wrt_mono_rel[rotated]) (simp add: avant_desc_def)
  moreover have "sorted_wrt (\<lambda>a b. avant_desc (r_ratio a) (r_ratio b))
      (filter (\<lambda>r. \<not> notna (r_ratio r)) rows)"
    by (rule sorted_wrt_mono_rel[of _ "\<lambda>a b. True"]) (simp_all add: avant_desc_def)
  ultimately show ?thesis
    by (simp add: sort_values_ratio_def Let_def sorted_wrt_append avant_desc_def)
qed

text \<open>
  C9. For a result table of n rows, each of the two tables has min 3 n rows; the top
  table is the beginning of a descending arrangement of all the rows and the bottom
  table the beginning of an ascending arrangement of all the rows (rows with a missing
  ratio stand last in both); with fewer than three rows both tables hold all the rows.
  The two tables are values: no error can be raised.
\<close>

theorem top_and_bottom_three:
  "length (top3 res) = min 3 (length res)
   \<and> length (flop3 res) = min 3 (length res)
   \<and> (\<exists>rest. mset (top3 res @ rest) = mset res
         \<and> sorted_wrt avant_desc (map r_ratio (top3 res @ rest)))
   \<and> (\<exists>rest. mset (flop3 res @ rest) = mset res
         \<and> sorted_wrt avant_asc (map r_ratio (flop3 res @ rest)))
   \<and> (length res < 3 \<longrightarrow> mset (top3 res) = mset res \<and> mset (flop3 res) = mset res)"
proof -
  let ?d = "sort_values_ratio False res" and ?a = "sort_values_ratio True res"
  have lt: "length (top3 res) = min 3 (length res)"
    by (simp add: top3_def Let_def length_sort_values_ratio)
  have lf: "length (flop3 res) = min 3 (length res)"
    by (simp add: flop3_def Let_def length_sort_values_ratio)
  have td: "top3 res @ drop (min 3 (length ?d)) ?d = ?d"
    by (simp add: top3_def Let_def)
  have fd: "flop3 res @ drop (min 3 (length ?a)) ?a = ?a"
    by (simp add: flop3_def Let_def)
  have t: "\<exists>rest. mset (top3 res @ rest) = mset res
         \<and> sorted_wrt avant_desc (map r_ratio (top3 res @ rest))"
    apply (rule exI[of _ "drop (min 3 (length ?d)) ?d"])
    apply (simp only: td)
    apply (simp add: mset_sort_values_ratio sorted_wrt_map sorted_sort_values_desc)
    done
  have f: "\<exists>rest. mset (flop3 res @ rest) = mset res
         \<and> sorted_wrt avant_asc (map r_ratio (flop3 res @ rest))"
    apply (rule exI[of _ "drop (min 3 (length ?a)) ?a"])
    apply (simp only: fd)
    apply (simp add: mset_sort_values_ratio sorted_wrt_map sorted_sort_values_asc)
    done
  have small: "length res < 3 \<longrightarrow> mset (top3 res) = mset res \<and> mset (flop3 res) = mset res"
    by (simp add: top3_def flop3_def Let_def length_sort_values_ratio mset_sort_values_ratio)
  from lt lf t f small show ?thesis by blast
qed

theorem top_and_bottom_three_witness:
  "length (df_resultats pair_frame pair_carac 0 0) < 3
   \<and> top3 (df_resultats pair_frame pair_carac 0 0) = [ex_row 2 3, ex_row 1 1]
   \<and> flop3 (df_resultats pair_frame pair_carac 0 0) = [ex_row 1 1, ex_row 2 3]
   \<and> mset (top3 (df_resultats pair_frame pair_carac 0 0)) = mset [ex_row 1 1, ex_row 2 3]
   \<and> mset (flop3 (df_resultats pair_frame pair_carac 0 0)) = mset [ex_row 1 1, ex_row 2 3]
   \<and> top3 [ex_row 1 1, ex_row 2 4, ex_row 3 2, ex_row 4 3] = [ex_row 2 4, ex_row 4 3, ex_row 3 2]
   \<and> flop3 [ex_row 1 1, ex_row 2 4, ex_row 3 2, ex_row 4 3] = [ex_row 1 1, ex_row 3 2, ex_row 4 3]"
proof -
  have small: "length (df_resultats pair_frame pair_carac 0 0) < 3"
    by (simp add: pair_resultats)
  have t: "top3 [ex_row 1 1, ex_row 2 3] = [ex_row 2 3, ex_row 1 1]"
    by (simp add: top3_def sort_values_ratio_def ex_row_def)
  have f: "flop3 [ex_row 1 1, ex_row 2 3] = [ex_row 1 1, ex_row 2 3]"
    by (simp add: flop3_def sort_values_ratio_def ex_row_def)
  have t4: "top3 [ex_row 1 1, ex_row 2 4, ex_row 3 2, ex_row 4 3] =
              [ex_row 2 4, ex_row 4 3, ex_row 3 2]"
    by (simp add: top3_def sort_values_ratio_def ex_row_def)
  have f4: "flop3 [ex_row 1 1, ex_row 2 4, ex_row 3 2, ex_row 4 3] =
              [ex_row 1 1, ex_row 3 2, ex_row 4 3]"
    by (simp add: flop3_def sort_values_ratio_def ex_row_def)
  from top_and_bottom_three[of "df_resultats pair_frame pair_carac 0 0"] small
  have "mset (top3 (df_resultats pair_frame pair_carac 0 0))
          = mset (df_resultats pair_frame pair_carac 0 0)
      \<and> mset (flop3 (df_resultats pair_frame pair_carac 0 0))
          = mset (df_resultats pair_frame pair_carac 0 0)"
    by blast
  with small t f t4 f4 show ?thesis
    by (simp add: pair_resultats)
qed

section \<open>Ratios without characteristics\<close>

lemma set_merge_left_fst: "fst ` set (merge_left gauche df_carac) = fst ` set gauche"
proof (induction gauche)
  case Nil
  then show ?case by (simp add: merge_left_def)
next
  case (Cons x gauche)
  obtain s e where x: "x = (s, e)" by (cases x)
  have "fst ` set (case filter (\<lambda>c. c_string c = s) df_carac of
          [] \<Rightarrow> [(s, e, NaN)]
        | ms \<Rightarrow> map (\<lambda>c. (s, e, puissance_installee c)) ms) = {s}"
    by (auto split: list.splits simp: image_iff)
  with Cons show ?case
    by (simp add: merge_left_def x image_Un)
qed

text \<open>A string without a row of characteristics gets a missing capacity.\<close>

lemma merge_left_row:
  assumes "(s', e', p) \<in> set (case filter (\<lambda>c. c_string c = s) df_carac of
          [] \<Rightarrow> [(s, e, NaN)]
        | ms \<Rightarrow> map (\<lambda>c. (s, e, puissance_installee c)) ms)"
  shows "s' = s \<and> (filter (\<lambda>c. c_string c = s) df_carac = [] \<longrightarrow> p = NaN)"
proof (cases "filter (\<lambda>c. c_string c = s) df_carac")
  case Nil
  with assms show ?thesis by simp
next
  case (Cons c cs)
  with assms show ?thesis by auto
qed

lemma merge_left_missing:
  "(s, e, p) \<in> set (merge_left gauche df_carac) \<Longrightarrow>
   filter (\<lambda>c. c_string c = s) df_carac = [] \<Longrightarrow> p = NaN"
proof (induction gauche)
  case Nil
  then show ?case by (simp add: merge_left_def)
next
  case (Cons x gauche)
  obtain s0 e0 where x: "x = (s0, e0)" by (cases x)
  from Cons.prems(1) consider
    (here) "(s, e, p) \<in> set (case filter (\<lambda>c. c_string c = s0) df_carac of
          [] \<Rightarrow> [(s0, e0, NaN)]
        | ms \<Rightarrow> map (\<lambda>c. (s0, e0, puissance_installee c)) ms)"
    | (later) "(s, e, p) \<in> set (merge_left gauche df_carac)"
    by (auto simp: merge_left_def x)
  then show ?case
  proof cases
    case here
    from merge_left_row[OF here] Cons.prems(2) show ?thesis by simp
  next
    case later
    with Cons show ?thesis by simp
  qed
qed

lemma fdiv_zero: "fdiv e (Fin 0) \<in> {PInf, NInf, NaN}"
  by (cases e) (auto simp: signed_inf_def)

lemma fdiv_NaN_right: "fdiv e NaN = NaN"
  by (cases e) simp_all

lemma length_energie_totale: "length (energie_totale df d0 d1) = length (f_strings df)"
  by (simp add: energie_totale_def)

lemma df_resultats_strings:
  "r_string ` set (df_resultats df df_carac d0 d1) = {1 .. int (length (f_strings df))}"
proof -
  let ?g = "zip [1 .. int (length (f_strings df))] (energie_totale df d0 d1)"
  have "r_string ` set (df_resultats df df_carac d0 d1) = fst ` set (merge_left ?g df_carac)"
    by (force simp: df_resultats_def image_iff)
  also have "\<dots> = fst ` set ?g" by (rule set_merge_left_fst)
  also have "\<dots> = set (map fst ?g)" by simp
  also have "map fst ?g = [1 .. int (length (f_strings df))]"
    by (simp add: length_energie_totale)
  finally show ?thesis by simp
qed

lemma zero_resultats: "df_resultats zero_frame zero_carac 0 0 = zero_rows"
  by (simp add: pipeline_defs zero_frame_def zero_carac_def zero_rows_def zero_row_def
      upto.simps signed_inf_def)

text \<open>
  C1, as the code has it. Every string of the inverter frame has its rows in the result
  table, and the ratio of a row is its energy divided by its installed capacity in the
  arithmetic of the numeric cells. Nothing is signalled (the table is a value): a row
  with a capacity of zero has an infinite or NaN ratio and stays in both sorted tables,
  hence in the top and bottom tables whenever the result table has at most three rows.
\<close>

theorem ratio_without_signal:
  assumes res: "res = df_resultats df df_carac d0 d1"
  shows "r_string ` set res = {1 .. int (length (f_strings df))}
       \<and> (\<forall>r \<in> set res.
            r_ratio r = fdiv (r_energie r) (r_puissance_installee r)
          \<and> (r_puissance_installee r = Fin 0 \<longrightarrow>
                r_ratio r \<in> {PInf, NInf, NaN}
              \<and> r \<in> set (sort_values_ratio False res) \<and> r \<in> set (sort_values_ratio True res)
              \<and> (length res \<le> 3 \<longrightarrow> r \<in> set (top3 res) \<and> r \<in> set (flop3 res))))"
proof (intro conjI ballI impI)
  show "r_string ` set res = {1 .. int (length (f_strings df))}"
    unfolding res by (rule df_resultats_strings)
next
  fix r assume r: "r \<in> set res"
  then obtain s e p where sep:
    "r = \<lparr>r_string = s, r_energie = e, r_puissance_installee = p, r_ratio = fdiv e p\<rparr>"
    unfolding res df_resultats_def by auto
  show "r_ratio r = fdiv (r_energie r) (r_puissance_installee r)"
    using sep by simp
  show "r \<in> set (sort_values_ratio False res)" "r \<in> set (sort_values_ratio True res)"
    using r by (simp_all add: set_sort_values_ratio)
  show "r_ratio r \<in> {PInf, NInf, NaN}" if "r_puissance_installee r = Fin 0"
    using that sep fdiv_zero[of e] by auto
  show "r \<in> set (top3 res)" "r \<in> set (flop3 res)" if "length res \<le> 3"
    using r that
    by (simp_all add: top3_def flop3_def Let_def length_sort_values_ratio set_sort_values_ratio)
qed

theorem ratio_without_signal_witness:
  "zero_rows = df_resultats zero_frame zero_carac 0 0
   \<and> r_string ` set zero_rows = {1 .. 3}
   \<and> zero_row 1 0 PInf \<in> set zero_rows
   \<and> r_puissance_installee (zero_row 1 0 PInf) = Fin 0
   \<and> length zero_rows \<le> 3
   \<and> r_ratio (zero_row 1 0 PInf) = fdiv (r_energie (zero_row 1 0 PInf)) (Fin 0)
   \<and> r_ratio (zero_row 1 0 PInf) \<in> {PInf, NInf, NaN}
   \<and> zero_row 1 0 PInf \<in> set (top3 zero_rows)
   \<and> zero_row 1 0 PInf \<in> set (flop3 zero_rows)"
proof -
  let ?r = "zero_row 1 0 PInf"
  have res: "zero_rows = df_resultats zero_frame zero_carac 0 0"
    by (simp add: zero_resultats)
  have r: "?r \<in> set zero_rows" by (simp add: zero_rows_def)
  have cap: "r_puissance_installee ?r = Fin 0" by (simp add: zero_row_def)
  have n: "length zero_rows \<le> 3" by (simp add: zero_rows_def)
  from ratio_without_signal[OF res]
  have ids: "r_string ` set zero_rows = {1 .. int (length (f_strings zero_frame))}"
    and all: "\<forall>r \<in> set zero_rows.
            r_ratio r = fdiv (r_energie r) (r_puissance_installee r)
          \<and> (r_puissance_installee r = Fin 0 \<longrightarrow>
                r_ratio r \<in> {PInf, NInf, NaN}
              \<and> r \<in> set (sort_values_ratio False zero_rows)
              \<and> r \<in> set (sort_values_ratio True zero_rows)
              \<and> (length zero_rows \<le> 3 \<longrightarrow> r \<in> set (top3 zero_rows) \<and> r \<in> set (flop3 zero_rows)))"
    by blast+
  from all r cap have ratio: "r_ratio ?r = fdiv (r_energie ?r) (Fin 0)" by auto
  from all r cap have inf: "r_ratio ?r \<in> {PInf, NInf, NaN}" by blast
  from all r cap n have top: "?r \<in> set (top3 zero_rows)" and flop: "?r \<in> set (flop3 zero_rows)"
    by blast+
  have ids': "r_string ` set zero_rows = {1 .. 3}"
    using ids by (simp add: zero_frame_def)
  from res ids' r cap n ratio inf top flop show ?thesis by blast
qed

text \<open>
  C1, as the claim states it, fails: string 1 has an installed capacity of zero; the
  study returns normally, its result table holds an infinite ratio for string 1, and
  string 1 stands first in the top table and last in the bottom table.
\<close>

theorem zero_capacity_ranked:
  "etude_par_onduleur zero_frame zero_carac 0 0 =
     Inr (Some \<lparr>an_resultats = zero_rows,
                an_top3 = [zero_row 1 0 PInf, zero_row 2 10 (Fin 0.1), zero_row 3 10 (Fin 0.1)],
                an_flop3 = [zero_row 2 10 (Fin 0.1), zero_row 3 10 (Fin 0.1), zero_row 1 0 PInf],
                an_alertes =
                  [\<lparr>a_string = 2, a_ecart = Deux_decimales (Fin 0), a_message = Acceptable\<rparr>,
                   \<lparr>a_string = 3, a_ecart = Deux_decimales (Fin 0), a_message = Acceptable\<rparr>]\<rparr>)
   \<and> map r_ratio zero_rows = [PInf, Fin 0.1, Fin 0.1]
   \<and> map r_puissance_installee zero_rows = [Fin 0, Fin 10, Fin 10]"
proof -
  have window: "filtrer 0 0 (f_time zero_frame) (f_time zero_frame) = [0]"
    by (simp add: filtrer_def dans_periode_def dt_date_def zero_frame_def)
  have t: "top3 zero_rows = [zero_row 1 0 PInf, zero_row 2 10 (Fin 0.1), zero_row 3 10 (Fin 0.1)]"
    by (simp add: zero_rows_def zero_row_def top3_def sort_values_ratio_def)
  have f: "flop3 zero_rows = [zero_row 2 10 (Fin 0.1), zero_row 3 10 (Fin 0.1), zero_row 1 0 PInf]"
    by (simp add: zero_rows_def zero_row_def flop3_def sort_values_ratio_def)
  have m: "moyenne_globale zero_rows = PInf"
    by (simp add: moyenne_globale_def nanmean_def zero_rows_def zero_row_def signed_inf_def)
  have below: "strings_sous_moyenne zero_rows = [zero_row 2 10 (Fin 0.1), zero_row 3 10 (Fin 0.1)]"
    by (simp add: strings_sous_moyenne_def m) (simp add: zero_rows_def zero_row_def)
  have a2: "analyser_string zero_rows zero_carac (zero_row 2 10 (Fin 0.1)) =
      Inr \<lparr>a_string = 2, a_ecart = Deux_decimales (Fin 0), a_message = Acceptable\<rparr>"
    by (simp add: analyser_string_def strings_comparables_def ratios_comparables_def
        nanmean_def nanstd_def format_2f_def fsub_def zero_rows_def zero_row_def zero_carac_def
        ex_spec_def)
  have a3: "analyser_string zero_rows zero_carac (zero_row 3 10 (Fin 0.1)) =
      Inr \<lparr>a_string = 3, a_ecart = Deux_decimales (Fin 0), a_message = Acceptable\<rparr>"
    by (simp add: analyser_string_def strings_comparables_def ratios_comparables_def
        nanmean_def nanstd_def format_2f_def fsub_def zero_rows_def zero_row_def zero_carac_def
        ex_spec_def)
  have d: "detecter zero_rows zero_carac =
      Inr [\<lparr>a_string = 2, a_ecart = Deux_decimales (Fin 0), a_message = Acceptable\<rparr>,
           \<lparr>a_string = 3, a_ecart = Deux_decimales (Fin 0), a_message = Acceptable\<rparr>]"
    by (simp add: detecter_def below a2 a3)
  have e: "etude_par_onduleur zero_frame zero_carac 0 0 =
     Inr (Some \<lparr>an_resultats = zero_rows, an_top3 = top3 zero_rows, an_flop3 = flop3 zero_rows,
                an_alertes =
                  [\<lparr>a_string = 2, a_ecart = Deux_decimales (Fin 0), a_message = Acceptable\<rparr>,
                   \<lparr>a_string = 3, a_ecart = Deux_decimales (Fin 0), a_message = Acceptable\<rparr>]\<rparr>)"
    by (simp add: etude_par_onduleur_def window zero_resultats d)
  have r: "map r_ratio zero_rows = [PInf, Fin 0.1, Fin 0.1]"
    "map r_puissance_installee zero_rows = [Fin 0, Fin 10, Fin 10]"
    by (simp_all add: zero_rows_def zero_row_def)
  from e t f r show ?thesis by simp
qed

section \<open>Energy over date ranges\<close>

lemma dt_date_mono: "t \<le> u \<Longrightarrow> dt_date t \<le> dt_date u"
  by (simp add: dt_date_def zdiv_mono1)

lemma filtrer_Nil_left: "filtrer d0 d1 [] col = []"
  by (simp add: filtrer_def)

lemma filtrer_Nil_right: "filtrer d0 d1 ts [] = []"
  by (simp add: filtrer_def)

lemma filtrer_Cons:
  "filtrer d0 d1 (t # ts) (v # col) =
     (if dans_periode d0 d1 t then v # filtrer d0 d1 ts col else filtrer d0 d1 ts col)"
  by (simp add: filtrer_def)

lemma filtrer_after:
  "\<forall>u \<in> set ts. d1 < dt_date u \<Longrightarrow> filtrer d0 d1 ts col = []"
proof (induction ts arbitrary: col)
  case Nil
  then show ?case by (simp add: filtrer_Nil_left)
next
  case (Cons t ts)
  then show ?case
    by (cases col) (simp_all add: filtrer_Nil_right filtrer_Cons dans_periode_def)
qed

lemma filtrer_partition:
  assumes "sorted ts" "t0 \<le> t1" "t1 \<le> t2"
  shows "filtrer t0 t2 ts col = filtrer t0 t1 ts col @ filtrer (t1 + 1) t2 ts col"
  using assms(1)
proof (induction ts arbitrary: col)
  case Nil
  then show ?case by (simp add: filtrer_Nil_left)
next
  case (Cons t ts)
  show ?case
  proof (cases col)
    case Nil
    then show ?thesis by (simp add: filtrer_Nil_right)
  next
    case (Cons v col')
    from Cons.prems have later: "\<forall>u \<in> set ts. t \<le> u" and s: "sorted ts" by simp_all
    have IH: "filtrer t0 t2 ts col' = filtrer t0 t1 ts col' @ filtrer (t1 + 1) t2 ts col'"
      by (rule Cons.IH[OF s])
    show ?thesis
    proof (cases "dans_periode (t1 + 1) t2 t")
      case True
      then have "t1 < dt_date t" by (simp add: dans_periode_def)
      with later have "\<forall>u \<in> set ts. t1 < dt_date u"
        using dt_date_mono by fastforce
      then have none: "filtrer t0 t1 ts col' = []" by (rule filtrer_after)
      from True assms(2) have "dans_periode t0 t2 t" "\<not> dans_periode t0 t1 t"
        by (simp_all add: dans_periode_def)
      with True none IH show ?thesis by (simp add: Cons filtrer_Cons)
    next
      case False
      with assms(2,3) have "dans_periode t0 t2 t \<longleftrightarrow> dans_periode t0 t1 t"
        by (auto simp: dans_periode_def)
      with False IH show ?thesis by (simp add: Cons filtrer_Cons)
    qed
  qed
qed

text \<open>
  C6, as the code has it. The date filter is inclusive on both bounds. On a frame
  sorted by time and for dates t0 \<le> t1 \<le> t2, the samples of every string that the
  filter keeps for [t0, t2] are the samples it keeps for [t0, t1] followed by the
  samples it keeps for the range that starts the day after t1, [t1 + 1, t2]; the energy
  over [t0, t2] is the sum, over these samples taken together, of the powers in kW
  times 10/60.
\<close>

theorem range_samples_partition:
  assumes "sorted (f_time df)" "t0 \<le> t1" "t1 \<le> t2"
  shows "map (filtrer t0 t2 (f_time df)) (f_strings df) =
           map (\<lambda>col. filtrer t0 t1 (f_time df) col @ filtrer (t1 + 1) t2 (f_time df) col)
             (f_strings df)
       \<and> energie_totale df t0 t2 =
           map (\<lambda>col. nansum (map (\<lambda>v. fmul v (Fin (10 / 60)))
                  (filtrer t0 t1 (f_time df) (kW col) @ filtrer (t1 + 1) t2 (f_time df) (kW col))))
             (f_strings df)"
  by (simp add: energie_totale_def energie_colonne_def filtrer_partition[OF assms])

theorem range_samples_partition_witness:
  "sorted (f_time contig_frame) \<and> (0::int) \<le> 0 \<and> (0::int) \<le> 1
   \<and> map (filtrer 0 1 (f_time contig_frame)) (f_strings contig_frame) = [[Fin 6000, Fin 6000]]
   \<and> map (\<lambda>col. filtrer 0 0 (f_time contig_frame) col @ filtrer (0 + 1) 1 (f_time contig_frame) col)
        (f_strings contig_frame) = [[Fin 6000] @ [Fin 6000]]
   \<and> energie_totale contig_frame 0 1 = [Fin 2]"
proof -
  have s: "sorted (f_time contig_frame)" by (simp add: contig_frame_def)
  have a: "(0::int) \<le> 0" and b: "(0::int) \<le> 1" by simp_all
  have parts: "map (\<lambda>col. filtrer 0 0 (f_time contig_frame) col
                   @ filtrer (0 + 1) 1 (f_time contig_frame) col)
        (f_strings contig_frame) = [[Fin 6000] @ [Fin 6000]]"
    by (simp add: contig_frame_def filtrer_def dans_periode_def dt_date_def)
  have e: "map (\<lambda>col. nansum (map (\<lambda>v. fmul v (Fin (10 / 60)))
                  (filtrer 0 0 (f_time contig_frame) (kW col)
                   @ filtrer (0 + 1) 1 (f_time contig_frame) (kW col))))
             (f_strings contig_frame) = [Fin 2]"
    by (simp add: contig_frame_def filtrer_def dans_periode_def dt_date_def kW_def nansum_def)
  have both: "map (filtrer 0 1 (f_time contig_frame)) (f_strings contig_frame) =
           map (\<lambda>col. filtrer 0 0 (f_time contig_frame) col
                   @ filtrer (0 + 1) 1 (f_time contig_frame) col) (f_strings contig_frame)
       \<and> energie_totale contig_frame 0 1 =
           map (\<lambda>col. nansum (map (\<lambda>v. fmul v (Fin (10 / 60)))
                  (filtrer 0 0 (f_time contig_frame) (kW col)
                   @ filtrer (0 + 1) 1 (f_time contig_frame) (kW col))))
             (f_strings contig_frame)"
    by (rule range_samples_partition[OF s a b])
  from both parts have p: "map (filtrer 0 1 (f_time contig_frame)) (f_strings contig_frame) =
      [[Fin 6000, Fin 6000]]"
    by (simp only: append.simps)
  from both e have en: "energie_totale contig_frame 0 1 = [Fin 2]"
    by (simp only:)
  from s p parts en show ?thesis by simp
qed

text \<open>
  C6, as the claim states it, fails under contiguous sampling: with t0 = t1 = day 0 and
  t2 = day 1, the inclusive ranges [0, 0] and [0, 1] both hold the sample of 23:50, which
  is counted twice: 1 kWh + 2 kWh against the 2 kWh of [0, 1].
\<close>

theorem energy_inclusive_ranges_overlap:
  "echantillonnage_contigu (f_time contig_frame)
   \<and> energie_totale contig_frame 0 1 = [Fin 2]
   \<and> energie_totale contig_frame 0 0 = [Fin 1]
   \<and> map2 fadd (energie_totale contig_frame 0 0) (energie_totale contig_frame 0 1) = [Fin 3]
   \<and> energie_totale contig_frame 0 1
       \<noteq> map2 fadd (energie_totale contig_frame 0 0) (energie_totale contig_frame 0 1)"
  by (simp add: energie_totale_def energie_colonne_def filtrer_def kW_def nansum_def
      dans_periode_def dt_date_def contig_frame_def)

section \<open>Alignment of series with the same timestamps\<close>

lemma backward_pos_exact:
  assumes "\<forall>x \<in> set pre. x < t" "\<forall>x \<in> set post. t < x"
  shows "backward_pos (pre @ t # post) t = Some (length pre)"
proof -
  have "takeWhile (\<lambda>r. r \<le> t) post = []"
    using assms(2) by (cases post) auto
  moreover have "takeWhile (\<lambda>r. r \<le> t) (pre @ t # post) = pre @ takeWhile (\<lambda>r. r \<le> t) (t # post)"
    using assms(1) by (intro takeWhile_append2) auto
  ultimately have "takeWhile (\<lambda>r. r \<le> t) (pre @ t # post) = pre @ [t]" by simp
  then show ?thesis by (simp add: backward_pos_def)
qed

lemma forward_pos_exact:
  assumes "\<forall>x \<in> set pre. x < t" "\<forall>x \<in> set post. t < x"
  shows "forward_pos (pre @ t # post) t = Some (length pre)"
proof -
  have "takeWhile (\<lambda>r. t \<le> r) (rev pre) = []"
    using assms(1) by (cases "rev pre") (auto simp: not_le dest!: arg_cong[where f = set])
  moreover have "takeWhile (\<lambda>r. t \<le> r) (rev post @ t # rev pre) =
      rev post @ takeWhile (\<lambda>r. t \<le> r) (t # rev pre)"
    using assms(2) by (intro takeWhile_append2) auto
  ultimately have "takeWhile (\<lambda>r. t \<le> r) (rev (pre @ t # post)) = rev post @ [t]" by simp
  then show ?thesis by (simp add: forward_pos_def)
qed

lemma nearest_pos_exact:
  assumes "\<forall>x \<in> set pre. x < t" "\<forall>x \<in> set post. t < x"
  shows "nearest_pos (pre @ t # post) t = Some (length pre)"
  by (simp add: nearest_pos_def backward_pos_exact[OF assms] forward_pos_exact[OF assms])

lemma nearest_pos_strict:
  assumes "sorted_wrt (<) ts" "i < length ts"
  shows "nearest_pos ts (ts ! i) = Some i"
proof -
  have split: "ts = take i ts @ ts ! i # drop (Suc i) ts"
    using assms(2) by (rule id_take_nth_drop)
  have "sorted_wrt (<) (take i ts @ ts ! i # drop (Suc i) ts)"
    using assms(1) split by simp
  then have pre: "\<forall>x \<in> set (take i ts). x < ts ! i"
    and post: "\<forall>x \<in> set (drop (Suc i) ts). ts ! i < x"
    by (auto simp: sorted_wrt_append)
  have "nearest_pos (take i ts @ ts ! i # drop (Suc i) ts) (ts ! i) = Some (length (take i ts))"
    by (rule nearest_pos_exact[OF pre post])
  then show ?thesis using split assms(2) by simp
qed

text \<open>
  C8, as the code has it. When the power frame has the timestamps of the irradiance
  frame and these timestamps are strictly increasing (no timestamp occurs twice), the
  nearest-timestamp alignment succeeds and returns, for each power timestamp, the
  irradiance value of the row with that timestamp: the irradiance column unchanged.
\<close>

theorem aligned_series_unchanged:
  assumes strict: "sorted_wrt (<) (map fst df_irradiance)"
  shows "merge_asof_nearest (map fst df_irradiance) df_irradiance = Inr (map snd df_irradiance)"
proof -
  let ?ts = "map fst df_irradiance"
  let ?pick = "\<lambda>t. case nearest_pos ?ts t of None \<Rightarrow> NaN | Some p \<Rightarrow> snd (df_irradiance ! p)"
  have sorted: "sorted ?ts"
    using strict by (rule strict_sorted_imp_sorted)
  have "map ?pick ?ts = map snd df_irradiance"
  proof (rule nth_equalityI)
    show "length (map ?pick ?ts) = length (map snd df_irradiance)"
      by simp
  next
    fix i
    assume "i < length (map ?pick ?ts)"
    then have i: "i < length ?ts" by simp
    from nearest_pos_strict[OF strict i] i
    show "map ?pick ?ts ! i = map snd df_irradiance ! i"
      by simp
  qed
  then show ?thesis
    using sorted by (simp add: merge_asof_nearest_def Let_def)
qed

theorem aligned_series_unchanged_witness:
  "sorted_wrt (<) (map fst ex_irradiance)
   \<and> merge_asof_nearest [0, 600, 1200] ex_irradiance = Inr [Fin 1, NaN, Fin 2]"
  using aligned_series_unchanged[of ex_irradiance]
  by (simp add: ex_irradiance_def)

text \<open>
  C8, as the claim states it, fails: two rows carry the timestamp 0 in both frames, and
  the alignment gives both power rows the irradiance of the last of them.
\<close>

theorem duplicate_timestamps_realigned:
  "map fst dup_irradiance = [0, 0]
   \<and> map snd dup_irradiance = [Fin 1, Fin 2]
   \<and> merge_asof_nearest (map fst dup_irradiance) dup_irradiance = Inr [Fin 2, Fin 2]
   \<and> merge_asof_nearest (map fst dup_irradiance) dup_irradiance
       \<noteq> Inr (map snd dup_irradiance)"
  by (simp add: merge_asof_nearest_def nearest_pos_def backward_pos_def forward_pos_def
      dup_irradiance_def)

end
